theory Spec2Isabelle
  imports Complex_Main "HOL-Library.Sublist" "HOL-Library.Char_ord" "HOL-Library.List_Lexorder"
    "HOL-Library.Log_Nat"
begin

section \<open>JavaScript numbers\<close>

text \<open>
  A JavaScript \<^verbatim>\<open>number\<close> is an IEEE 754 binary64 value: a finite value, which is a
  rational number, one of the two infinities, or NaN. (The two zeros are not told apart;
  none of the operators used below distinguishes them.) The result of an arithmetic
  operation is the exact result rounded to the nearest representable value, ties to the
  value with an even significand.
\<close>

datatype number = Fin rat | PosInf | NegInf | NaN

text \<open>
  Two to an integer power, and the binary exponent of a positive number: the integer
  \<^verbatim>\<open>e\<close> with \<^verbatim>\<open>2^e <= a < 2^(e+1)\<close>.
\<close>

definition pow2 :: "int \<Rightarrow> rat" where
  "pow2 e = (if 0 \<le> e then 2 ^ nat e else 1 / 2 ^ nat (- e))"

definition ilog2 :: "rat \<Rightarrow> int" where
  "ilog2 a = (if 1 \<le> a then bitlen \<lfloor>a\<rfloor> - 1 else - bitlen (\<lceil>1 / a\<rceil> - 1))"

text \<open>Rounding to the nearest integer, ties to even.\<close>

definition round_even :: "rat \<Rightarrow> int" where
  "round_even x =
     (let f = \<lfloor>x\<rfloor>; d = x - of_int f
      in if d < 1 / 2 then f else if 1 / 2 < d then f + 1 else if even f then f else f + 1)"

text \<open>
  Rounding of an exact result to binary64: 53 significant bits, least exponent
  \<^verbatim>\<open>-1074\<close> (subnormal numbers), overflow to infinity from \<^verbatim>\<open>2^1024\<close> on.
\<close>

definition round_double :: "rat \<Rightarrow> number" where
  "round_double x =
     (if x = 0 then Fin 0
      else
        (let a = \<bar>x\<bar>;
             p = max (ilog2 a - 52) (- 1074);
             v = of_int (round_even (a / pow2 p)) * pow2 p
         in if 2 ^ 1024 \<le> v then (if 0 < x then PosInf else NegInf)
            else Fin (if 0 < x then v else - v)))"


text \<open>The operators \<^verbatim>\<open>+\<close>, unary and binary \<^verbatim>\<open>-\<close>, \<^verbatim>\<open>===\<close> and \<^verbatim>\<open>>=\<close> on numbers.\<close>

fun js_add :: "number \<Rightarrow> number \<Rightarrow> number" where
  "js_add (Fin x) (Fin y) = round_double (x + y)"
| "js_add NaN y = NaN"
| "js_add x NaN = NaN"
| "js_add PosInf NegInf = NaN"
| "js_add NegInf PosInf = NaN"
| "js_add PosInf y = PosInf"
| "js_add x PosInf = PosInf"
| "js_add NegInf y = NegInf"
| "js_add x NegInf = NegInf"






section \<open>The delivery-quick widget: cart state\<close>

text \<open>
  The widget (\<^verbatim>\<open>web/src/delivery-quick/index.tsx\<close>; the handlers that add and remove
  are the same in the earlier copy of the file) keeps its cart in the widget state
  document (\<^verbatim>\<open>QuickWidgetState\<close>).
  A cart entry is \<^verbatim>\<open>{ product_id: string, quantity: number }\<close>.
\<close>

record CartItem =
  product_id :: string
  quantity :: number

text \<open>
  Every handler is written against a possibly missing document (\<^verbatim>\<open>prev?.cart || []\<close>),
  so the document is an option (\<open>None\<close> is \<^verbatim>\<open>null\<close>) and each of its fields is an
  option (\<open>None\<close> is an absent key).
\<close>

record QuickWidgetState =
  cart :: "CartItem list option"
  selectedCategory :: "string option"
  favorites :: "string list option"
  viewMode :: "string option"

definition empty_document :: QuickWidgetState where
  "empty_document =
     \<lparr>cart = None, selectedCategory = None, favorites = None, viewMode = None\<rparr>"

text \<open>The object spread \<^verbatim>\<open>{ ...prev }\<close>: spreading \<^verbatim>\<open>null\<close> gives the empty object.\<close>

definition spread :: "QuickWidgetState option \<Rightarrow> QuickWidgetState" where
  "spread prev = (case prev of None \<Rightarrow> empty_document | Some d \<Rightarrow> d)"

text \<open>\<^verbatim>\<open>prev?.cart || []\<close>\<close>

definition currentCart :: "QuickWidgetState option \<Rightarrow> CartItem list" where
  "currentCart prev =
     (case prev of
        None \<Rightarrow> []
      | Some d \<Rightarrow> (case cart d of None \<Rightarrow> [] | Some c \<Rightarrow> c))"


text \<open>
  The updater that \<^verbatim>\<open>handleAddToCart\<close> passes to \<^verbatim>\<open>setWidgetState\<close>: it maps the
  previous document to the next one.
\<close>

definition handleAddToCart :: "string \<Rightarrow> QuickWidgetState option \<Rightarrow> QuickWidgetState option" where
  "handleAddToCart productId prev =
     (let currentCart = currentCart prev;
          existingItem = find (\<lambda>item. product_id item = productId) currentCart
      in case existingItem of
           Some _ \<Rightarrow>
             Some ((spread prev)\<lparr>cart :=
               Some (map (\<lambda>item. if product_id item = productId
                                   then item\<lparr>quantity := js_add (quantity item) (Fin 1)\<rparr>
                                   else item) currentCart)\<rparr>)
         | None \<Rightarrow>
             Some ((spread prev)\<lparr>cart :=
               Some (currentCart @ [\<lparr>product_id = productId, quantity = Fin 1\<rparr>])\<rparr>))"











section \<open>The MCP server template: data model\<close>

text \<open>
  The server side is the Python module of \<^verbatim>\<open>PROMPT.md\<close> (Step 2.2). Values that travel
  as JSON (tool arguments, structured content, metadata values, widget state) are of type
  \<open>json\<close>; a dictionary is an association list in insertion order. Numbers are integers:
  a JSON number with a fractional part is not represented.
\<close>

datatype json =
    JNull
  | JBool bool
  | JNum int
  | JStr string
  | JList "json list"
  | JObj "(string \<times> json) list"

text \<open>\<^verbatim>\<open>@dataclass(frozen=True) class MyWidget\<close>\<close>

record MyWidget =
  "identifier" :: string
  title :: string
  template_uri :: string
  invoking :: string
  invoked :: string
  html :: string
  response_text :: string

text \<open>
  \<^verbatim>\<open>WIDGETS_BY_ID = {w.identifier: w for w in widgets}\<close> followed by \<^verbatim>\<open>.get(name)\<close>:
  in a dict comprehension a later widget with the same identifier replaces an earlier one.
\<close>

definition WIDGETS_BY_ID :: "MyWidget list \<Rightarrow> string \<Rightarrow> MyWidget option" where
  "WIDGETS_BY_ID widgets nm = find (\<lambda>w. identifier w = nm) (rev widgets)"

text \<open>\<^verbatim>\<open>_tool_meta\<close> and \<^verbatim>\<open>_tool_invocation_meta\<close>\<close>

definition tool_meta :: "MyWidget \<Rightarrow> (string \<times> json) list" where
  "tool_meta widget =
     [(''openai/outputTemplate'', JStr (template_uri widget)),
      (''openai/toolInvocation/invoking'', JStr (invoking widget)),
      (''openai/toolInvocation/invoked'', JStr (invoked widget)),
      (''openai/widgetAccessible'', JBool True)]"

definition tool_invocation_meta :: "MyWidget \<Rightarrow> (string \<times> json) list" where
  "tool_invocation_meta widget =
     [(''openai/toolInvocation/invoking'', JStr (invoking widget)),
      (''openai/toolInvocation/invoked'', JStr (invoked widget))]"

subsection \<open>Input validation\<close>

text \<open>
  \<^verbatim>\<open>class MyToolInput(BaseModel)\<close>: \<^verbatim>\<open>query: str\<close> is required
  (\<^verbatim>\<open>Field(...)\<close>), \<^verbatim>\<open>limit: int\<close> defaults to 10, and
  \<^verbatim>\<open>extra="forbid"\<close> closes the schema. All tools of the module share this model.
\<close>

record MyToolInput =
  query :: string
  limit :: int

definition MyToolInput_fields :: "string list" where
  "MyToolInput_fields = [''query'', ''limit'']"

definition MyToolInput_required :: "string list" where
  "MyToolInput_required = [''query'']"

text \<open>One entry of \<^verbatim>\<open>ValidationError.errors()\<close>.\<close>

record ErrorDetails =
  etype :: string
  loc :: string
  msg :: string
  input :: json

text \<open>
  \<^verbatim>\<open>MyToolInput.model_validate(arguments)\<close>, the validation the library performs for
  this model: the declared fields in their order, then the keys that are not declared. It
  returns the validated model or raises \<^verbatim>\<open>ValidationError\<close> with every violation.
  The library's conversion of a value to \<^verbatim>\<open>int\<close> is the parameter
  \<open>int_validator\<close>, which gives the integer or the type and message of the error.
\<close>

definition validate_query :: "(string \<times> json) list \<Rightarrow> ErrorDetails + string" where
  "validate_query data =
     (case map_of data ''query'' of
        None \<Rightarrow> Inl \<lparr>etype = ''missing'', loc = ''query'',
                     msg = ''Field required'', input = JObj data\<rparr>
      | Some (JStr s) \<Rightarrow> Inr s
      | Some v \<Rightarrow> Inl \<lparr>etype = ''string_type'', loc = ''query'',
                       msg = ''Input should be a valid string'', input = v\<rparr>)"

definition validate_limit ::
  "(json \<Rightarrow> (string \<times> string) + int) \<Rightarrow> (string \<times> json) list \<Rightarrow> ErrorDetails + int" where
  "validate_limit int_validator data =
     (case map_of data ''limit'' of
        None \<Rightarrow> Inr 10
      | Some v \<Rightarrow>
          (case int_validator v of
             Inl (t, m) \<Rightarrow> Inl \<lparr>etype = t, loc = ''limit'', msg = m, input = v\<rparr>
           | Inr i \<Rightarrow> Inr i))"

definition forbid_extra :: "(string \<times> json) list \<Rightarrow> ErrorDetails list" where
  "forbid_extra data =
     map (\<lambda>(k, v). \<lparr>etype = ''extra_forbidden'', loc = k,
                      msg = ''Extra inputs are not permitted'', input = v\<rparr>)
       (filter (\<lambda>(k, v). k \<notin> set MyToolInput_fields) data)"

definition field_errors :: "ErrorDetails + 'a \<Rightarrow> ErrorDetails list" where
  "field_errors r = (case r of Inl e \<Rightarrow> [e] | Inr _ \<Rightarrow> [])"

definition model_validate ::
  "(json \<Rightarrow> (string \<times> string) + int) \<Rightarrow> (string \<times> json) list \<Rightarrow> ErrorDetails list + MyToolInput" where
  "model_validate int_validator data =
     (case (validate_query data, validate_limit int_validator data, forbid_extra data) of
        (Inr s, Inr i, []) \<Rightarrow> Inr \<lparr>query = s, limit = i\<rparr>
      | (q, l, extra) \<Rightarrow> Inl (field_errors q @ field_errors l @ extra))"

subsection \<open>Output model\<close>

text \<open>
  \<^verbatim>\<open>class ItemData(BaseModel)\<close> and \<^verbatim>\<open>class MyToolOutput(BaseModel)\<close> declare
  the fields of the output; none has a default, so all are required. An item is represented
  by the dictionary that \<^verbatim>\<open>item.model_dump()\<close> returns.
\<close>

type_synonym item = "(string \<times> json) list"

definition ItemData_fields :: "string list" where
  "ItemData_fields = [''id'', ''name'', ''description'', ''image_url'', ''rating'']"

definition MyToolOutput_fields :: "string list" where
  "MyToolOutput_fields = [''items'', ''total_count'', ''metadata'']"

definition missing_field :: "string list \<Rightarrow> (string \<times> json) list \<Rightarrow> bool" where
  "missing_field declared d \<longleftrightarrow> list_ex (\<lambda>f. f \<notin> set (map fst d)) declared"

subsection \<open>The tool call handler\<close>

text \<open>
  What the handler \<^verbatim>\<open>_fetch_from_api\<close> may raise, each with its \<^verbatim>\<open>str(exc)\<close>:
  an \<^verbatim>\<open>httpx.HTTPError\<close>, any other instance of \<^verbatim>\<open>Exception\<close>, or an exception
  that derives from \<^verbatim>\<open>BaseException\<close> without being an instance of
  \<^verbatim>\<open>Exception\<close> (\<^verbatim>\<open>asyncio.CancelledError\<close>, \<^verbatim>\<open>SystemExit\<close>,
  \<^verbatim>\<open>KeyboardInterrupt\<close>).
\<close>

datatype exn = HTTPError string | OtherException string | BaseExceptionOnly string

text \<open>
  The collaborators of \<^verbatim>\<open>_call_tool_request\<close>: the library's integer conversion,
  Python's rendering of \<^verbatim>\<open>exc.errors()\<close> inside the f-string, the handler
  \<^verbatim>\<open>_fetch_from_api\<close> (the template offers a real API call or mock data), and the
  reading of \<^verbatim>\<open>datetime.now().isoformat()\<close>.
\<close>

record environment =
  int_validator :: "json \<Rightarrow> (string \<times> string) + int"
  errors_repr :: "ErrorDetails list \<Rightarrow> string"
  fetch_from_api :: "string \<Rightarrow> int \<Rightarrow> exn + item list"
  now_isoformat :: string

text \<open>\<^verbatim>\<open>types.CallToolRequest\<close>: \<^verbatim>\<open>req.params.name\<close> and \<^verbatim>\<open>req.params.arguments\<close>.\<close>

record CallToolRequest =
  req_name :: string
  req_arguments :: "(string \<times> json) list option"

text \<open>
  \<^verbatim>\<open>types.CallToolResult\<close>: the texts of \<^verbatim>\<open>content\<close>,
  \<^verbatim>\<open>structuredContent\<close>, \<^verbatim>\<open>_meta\<close> and \<^verbatim>\<open>isError\<close> (false unless set).
\<close>

record CallToolResult =
  content :: "string list"
  structuredContent :: "json option"
  meta :: "(string \<times> json) list option"
  isError :: bool

text \<open>\<^verbatim>\<open>arguments = req.params.arguments or {}\<close>\<close>

definition arguments_of :: "CallToolRequest \<Rightarrow> (string \<times> json) list" where
  "arguments_of req = (case req_arguments req of None \<Rightarrow> [] | Some a \<Rightarrow> a)"

text \<open>\<^verbatim>\<open>str(exc)\<close>\<close>

fun exn_text :: "exn \<Rightarrow> string" where
  "exn_text (HTTPError m) = m"
| "exn_text (OtherException m) = m"
| "exn_text (BaseExceptionOnly m) = m"

text \<open>
  \<^verbatim>\<open>isinstance(exc, httpx.HTTPError)\<close> and \<^verbatim>\<open>isinstance(exc, Exception)\<close>: what the
  first and the second \<^verbatim>\<open>except\<close> clause match.
\<close>

fun is_http_error :: "exn \<Rightarrow> bool" where
  "is_http_error (HTTPError m) = True"
| "is_http_error (OtherException m) = False"
| "is_http_error (BaseExceptionOnly m) = False"

fun is_exception :: "exn \<Rightarrow> bool" where
  "is_exception (HTTPError m) = True"
| "is_exception (OtherException m) = True"
| "is_exception (BaseExceptionOnly m) = False"

text \<open>\<^verbatim>\<open>str(n)\<close> for a length.\<close>

fun str_nat :: "nat \<Rightarrow> string" where
  "str_nat n =
     (if n < 10 then [''0123456789'' ! n]
      else str_nat (n div 10) @ [''0123456789'' ! (n mod 10)])"

declare str_nat.simps [simp del]

text \<open>
  \<^verbatim>\<open>_call_tool_request\<close>. The outcome is \<open>Inr\<close> of the result the function returns,
  or \<open>Inl\<close> of the exception that leaves it: the two \<^verbatim>\<open>except\<close> clauses catch
  instances of \<^verbatim>\<open>Exception\<close> and nothing else. Beside the outcome the model gives the
  list of calls made to the handler, each with its arguments, so that "the handler was not
  executed" can be stated.
\<close>

definition call_tool_request ::
  "environment \<Rightarrow> MyWidget list \<Rightarrow> CallToolRequest
     \<Rightarrow> (exn + CallToolResult) \<times> (string \<times> int) list" where
  "call_tool_request env widgets req =
     (case WIDGETS_BY_ID widgets (req_name req) of
        None \<Rightarrow>
          (Inr \<lparr>content = [''Unknown tool: '' @ req_name req], structuredContent = None,
            meta = None, isError = True\<rparr>, [])
      | Some widget \<Rightarrow>
          (let arguments = arguments_of req
           in case model_validate (int_validator env) arguments of
                Inl errors \<Rightarrow>
                  (Inr \<lparr>content = [''Validation error: '' @ errors_repr env errors],
                    structuredContent = None, meta = None, isError = True\<rparr>, [])
              | Inr payload \<Rightarrow>
                  (case fetch_from_api env (query payload) (limit payload) of
                     Inr items \<Rightarrow>
                       (Inr \<lparr>content = [''Found '' @ str_nat (length items) @ '' items for ''
                                     @ [CHR 0x27] @ query payload @ [CHR 0x27]],
                         structuredContent = Some (JObj
                           [(''items'', JList (map JObj items)),
                            (''total_count'', JNum (int (length items))),
                            (''metadata'', JObj [(''query'', JStr (query payload)),
                                                 (''timestamp'', JStr (now_isoformat env))])]),
                         meta = Some (tool_invocation_meta widget),
                         isError = False\<rparr>,
                        [(query payload, limit payload)])
                   | Inl (HTTPError m) \<Rightarrow>
                       (Inr \<lparr>content = [''API error: '' @ exn_text (HTTPError m)],
                         structuredContent = None, meta = None, isError = True\<rparr>,
                        [(query payload, limit payload)])
                   | Inl (OtherException m) \<Rightarrow>
                       (Inr \<lparr>content = [''Error: '' @ exn_text (OtherException m)],
                         structuredContent = None, meta = None, isError = True\<rparr>,
                        [(query payload, limit payload)])
                   | Inl (BaseExceptionOnly m) \<Rightarrow>
                       (Inl (BaseExceptionOnly m), [(query payload, limit payload)]))))"

subsection \<open>Concrete instances\<close>

text \<open>
  The \<^verbatim>\<open>widgets\<close> list of the template, with the loaded markup as a parameter, and small
  collaborators with which the definitions can be run: an integer conversion that accepts
  integers only, a rendering of the error list, four handlers (the last one raises
  \<^verbatim>\<open>SystemExit("shutdown")\<close>) and a request.
\<close>

definition template_widgets :: "string \<Rightarrow> MyWidget list" where
  "template_widgets html_text =
     [\<lparr>identifier = ''<tool-name>'', title = ''<Tool Title>'',
       template_uri = ''ui://widget/<widget-name>.html'',
       invoking = ''Loading...'', invoked = ''Loaded successfully'',
       html = html_text, response_text = ''Successfully loaded data''\<rparr>]"

definition example_int_validator :: "json \<Rightarrow> (string \<times> string) + int" where
  "example_int_validator v =
     (case v of JNum i \<Rightarrow> Inr i | _ \<Rightarrow> Inl (''int_type'', ''Input should be a valid integer''))"

definition example_errors_repr :: "ErrorDetails list \<Rightarrow> string" where
  "example_errors_repr errs = concat (map (\<lambda>e. etype e @ '' '' @ loc e @ ''; '') errs)"

definition handler_no_items :: "string \<Rightarrow> int \<Rightarrow> exn + item list" where
  "handler_no_items q l = Inr []"

definition handler_partial_item :: "string \<Rightarrow> int \<Rightarrow> exn + item list" where
  "handler_partial_item q l = Inr [[(''id'', JStr ''item-0''), (''name'', JStr (''Item 0: '' @ q))]]"

definition handler_raising :: "string \<Rightarrow> string \<Rightarrow> int \<Rightarrow> exn + item list" where
  "handler_raising m q l = Inl (OtherException m)"

definition handler_exiting :: "string \<Rightarrow> int \<Rightarrow> exn + item list" where
  "handler_exiting q l = Inl (BaseExceptionOnly ''shutdown'')"

definition example_environment :: "(string \<Rightarrow> int \<Rightarrow> exn + item list) \<Rightarrow> environment" where
  "example_environment handler =
     \<lparr>int_validator = example_int_validator, errors_repr = example_errors_repr,
      fetch_from_api = handler, now_isoformat = ''2025-01-01T12:00:00''\<rparr>"

definition example_request :: "(string \<times> json) list \<Rightarrow> CallToolRequest" where
  "example_request args = \<lparr>req_name = ''<tool-name>'', req_arguments = Some args\<rparr>"

section \<open>Widget markup: loading and caching\<close>

text \<open>
  The directory \<^verbatim>\<open>ASSETS_DIR\<close> is given by its files: names with their texts. The
  model covers component names that are plain, that is, without the characters that
  \<^verbatim>\<open>Path.glob\<close> and the path join treat specially.
\<close>

type_synonym assets = "(string \<times> string) list"

datatype load_error = FileNotFoundError string

definition plain_name :: "string \<Rightarrow> bool" where
  "plain_name nm \<longleftrightarrow> list_all (\<lambda>c. c \<notin> set ''*?[/'') nm"

text \<open>\<^verbatim>\<open>ASSETS_DIR.glob(f"{component_name}-*.html")\<close>, for a plain name.\<close>

definition glob_fallback :: "assets \<Rightarrow> string \<Rightarrow> string list" where
  "glob_fallback assets component_name =
     filter (\<lambda>f. prefix (component_name @ ''-'') f
                \<and> suffix ''.html'' (drop (length component_name + 1) f))
       (map fst assets)"

text \<open>\<^verbatim>\<open>path.read_text(encoding="utf8")\<close>\<close>

definition read_text :: "assets \<Rightarrow> string \<Rightarrow> load_error + string" where
  "read_text assets f =
     (case map_of assets f of Some text \<Rightarrow> Inr text | None \<Rightarrow> Inl (FileNotFoundError f))"

text \<open>The message of the \<^verbatim>\<open>FileNotFoundError\<close> that \<^verbatim>\<open>_load_widget_html\<close> raises.\<close>

definition not_found_message :: "string \<Rightarrow> string \<Rightarrow> string" where
  "not_found_message ASSETS_DIR component_name =
     ''Widget HTML for '' @ [CHR 0x22] @ component_name @ [CHR 0x22] @ '' not found in ''
       @ ASSETS_DIR @ ''. '' @ ''Run `pnpm run build` in web/ to generate assets.''"

text \<open>The body of \<^verbatim>\<open>_load_widget_html\<close>.\<close>

definition load_widget_html :: "string \<Rightarrow> assets \<Rightarrow> string \<Rightarrow> load_error + string" where
  "load_widget_html ASSETS_DIR assets component_name =
     (let html_path = component_name @ ''.html''
      in if html_path \<in> set (map fst assets) then read_text assets html_path
         else
           (let fallback_candidates = sort (glob_fallback assets component_name)
            in if fallback_candidates \<noteq> [] then read_text assets (last fallback_candidates)
               else Inl (FileNotFoundError (not_found_message ASSETS_DIR component_name))))"

text \<open>
  \<^verbatim>\<open>@lru_cache(maxsize=None)\<close>: the wrapper keeps a dictionary from the argument to
  the result and the counters that \<^verbatim>\<open>cache_info()\<close> reports. A hit returns the stored
  result; a miss counts, runs the body and stores the result if the body returned. An
  exception of the body passes through and nothing is stored.
\<close>

record lru_cache =
  cache :: "string \<rightharpoonup> string"
  hits :: nat
  misses :: nat

definition cached_load_widget_html ::
  "string \<Rightarrow> assets \<Rightarrow> string \<Rightarrow> lru_cache \<Rightarrow> (load_error + string) \<times> lru_cache" where
  "cached_load_widget_html ASSETS_DIR assets component_name st =
     (case cache st component_name of
        Some result \<Rightarrow> (Inr result, st\<lparr>hits := hits st + 1\<rparr>)
      | None \<Rightarrow>
          (let st1 = st\<lparr>misses := misses st + 1\<rparr>
           in case load_widget_html ASSETS_DIR assets component_name of
                Inl e \<Rightarrow> (Inl e, st1)
              | Inr result \<Rightarrow> (Inr result, st1\<lparr>cache := (cache st1)(component_name \<mapsto> result)\<rparr>)))"

text \<open>
  Successive calls for one name; each call finds the directory in the state given for it.
\<close>

fun resolve_all ::
  "string \<Rightarrow> assets list \<Rightarrow> string \<Rightarrow> lru_cache \<Rightarrow> (load_error + string) list \<times> lru_cache" where
  "resolve_all ASSETS_DIR [] component_name st = ([], st)"
| "resolve_all ASSETS_DIR (a # later) component_name st =
     (case cached_load_widget_html ASSETS_DIR a component_name st of
        (r, st1) \<Rightarrow>
          (case resolve_all ASSETS_DIR later component_name st1 of
             (rs, st2) \<Rightarrow> (r # rs, st2)))"

section \<open>The widget state store\<close>

text \<open>
  Every widget obtains \<^verbatim>\<open>[widgetState, setWidgetState]\<close> from the hook
  \<^verbatim>\<open>useWidgetState\<close> of \<^verbatim>\<open>../use-widget-state\<close>. The hook is not among the
  sources, so the store is taken from section 4.4 of the specification. The store of one
  widget instance holds a document or nothing (before the first mount); the argument of a
  write is a document or an updater function.
\<close>

datatype 'd write_argument = NewDocument 'd | Updater "'d \<Rightarrow> 'd"

text \<open>
  Modelled from the spec: \<^verbatim>\<open>read()\<close> of the widget state store (the hook
  \<^verbatim>\<open>use-widget-state\<close> is missing). It returns whatever is currently held for this
  widget instance, nothing on the first mount.
\<close>

definition read :: "'d option \<Rightarrow> 'd option" where
  "read store = store"

text \<open>
  Modelled from the spec: \<^verbatim>\<open>write(newDocumentOrUpdater)\<close> of the widget state store
  (the hook \<^verbatim>\<open>use-widget-state\<close> is missing). Given a document, it replaces what is
  held wholesale; given an updater function, it applies the function to the current
  document, or to the default of the type if there is none, and holds the result.
\<close>

definition "write" :: "'d \<Rightarrow> 'd write_argument \<Rightarrow> 'd option \<Rightarrow> 'd option" where
  "write default_document arg store =
     (case arg of
        NewDocument d \<Rightarrow> Some d
      | Updater f \<Rightarrow> Some (f (case store of None \<Rightarrow> default_document | Some current \<Rightarrow> current)))"

text \<open>
  The updater of \<^verbatim>\<open>handleSaveWidgetState\<close> in the kitchen-sink widget, on a document
  given as a map from keys to values:
  \<^verbatim>\<open>(prev) => ({ ...prev, note: noteDraft, highlight: highlightDraft, savedAt: ... })\<close>.
  The time stamp read from the clock is a parameter.
\<close>

definition handleSaveWidgetState ::
  "string \<Rightarrow> bool \<Rightarrow> string \<Rightarrow> (string \<rightharpoonup> json) \<Rightarrow> (string \<rightharpoonup> json)" where
  "handleSaveWidgetState noteDraft highlightDraft now prev =
     prev(''note'' \<mapsto> JStr noteDraft, ''highlight'' \<mapsto> JBool highlightDraft,
          ''savedAt'' \<mapsto> JStr now)"

section \<open>Properties of numbers and of the cart\<close>






lemma pow2_nonneg: "0 \<le> p \<Longrightarrow> pow2 p = 2 ^ nat p"
  by (simp add: pow2_def)








lemma round_double_zero [simp]: "round_double 0 = Fin 0"
  by (simp add: round_double_def)










lemma currentCart_set_cart [simp]: "currentCart (Some (d\<lparr>cart := Some c\<rparr>)) = c"
  by (simp add: currentCart_def)

lemma currentCart_spread [simp]: "currentCart (Some (spread prev)) = currentCart prev"
  by (simp add: currentCart_def spread_def empty_document_def split: option.splits)






























section \<open>Properties of the tool call handler\<close>

lemma WIDGETS_BY_ID_None: "WIDGETS_BY_ID widgets nm = None \<longleftrightarrow> nm \<notin> set (map identifier widgets)"
  by (auto simp: WIDGETS_BY_ID_def find_None_iff)

lemma find_SomeD: "find P xs = Some x \<Longrightarrow> x \<in> set xs \<and> P x"
  by (induction xs) (auto split: if_splits)

lemma WIDGETS_BY_ID_Some:
  "WIDGETS_BY_ID widgets nm = Some w \<Longrightarrow> w \<in> set widgets \<and> identifier w = nm"
  unfolding WIDGETS_BY_ID_def using find_SomeD [of "\<lambda>w. identifier w = nm" "rev widgets" w] by simp

lemma call_unknown:
  "WIDGETS_BY_ID widgets (req_name req) = None \<Longrightarrow>
   call_tool_request env widgets req =
     (Inr \<lparr>content = [''Unknown tool: '' @ req_name req], structuredContent = None,
       meta = None, isError = True\<rparr>, [])"
  by (simp add: call_tool_request_def)

lemma call_invalid:
  "WIDGETS_BY_ID widgets (req_name req) = Some w \<Longrightarrow>
   model_validate (int_validator env) (arguments_of req) = Inl errs \<Longrightarrow>
   call_tool_request env widgets req =
     (Inr \<lparr>content = [''Validation error: '' @ errors_repr env errs], structuredContent = None,
       meta = None, isError = True\<rparr>, [])"
  by (simp add: call_tool_request_def)

lemma call_success:
  "WIDGETS_BY_ID widgets (req_name req) = Some w \<Longrightarrow>
   model_validate (int_validator env) (arguments_of req) = Inr payload \<Longrightarrow>
   fetch_from_api env (query payload) (limit payload) = Inr items \<Longrightarrow>
   call_tool_request env widgets req =
     (Inr \<lparr>content = [''Found '' @ str_nat (length items) @ '' items for ''
                   @ [CHR 0x27] @ query payload @ [CHR 0x27]],
       structuredContent = Some (JObj
         [(''items'', JList (map JObj items)),
          (''total_count'', JNum (int (length items))),
          (''metadata'', JObj [(''query'', JStr (query payload)),
                               (''timestamp'', JStr (now_isoformat env))])]),
       meta = Some (tool_invocation_meta w),
       isError = False\<rparr>,
      [(query payload, limit payload)])"
  by (simp add: call_tool_request_def)

lemma call_raise:
  "WIDGETS_BY_ID widgets (req_name req) = Some w \<Longrightarrow>
   model_validate (int_validator env) (arguments_of req) = Inr payload \<Longrightarrow>
   fetch_from_api env (query payload) (limit payload) = Inl exc \<Longrightarrow>
   is_exception exc \<Longrightarrow>
   call_tool_request env widgets req =
     (Inr \<lparr>content = [(if is_http_error exc then ''API error: '' else ''Error: '') @ exn_text exc],
       structuredContent = None, meta = None, isError = True\<rparr>,
      [(query payload, limit payload)])"
  by (cases exc) (simp_all add: call_tool_request_def)

lemma call_propagate:
  "WIDGETS_BY_ID widgets (req_name req) = Some w \<Longrightarrow>
   model_validate (int_validator env) (arguments_of req) = Inr payload \<Longrightarrow>
   fetch_from_api env (query payload) (limit payload) = Inl exc \<Longrightarrow>
   \<not> is_exception exc \<Longrightarrow>
   call_tool_request env widgets req = (Inl exc, [(query payload, limit payload)])"
  by (cases exc) (simp_all add: call_tool_request_def)

lemma handler_called:
  assumes "snd (call_tool_request env widgets req) = [(q, l)]"
  shows "\<exists>w payload.
           WIDGETS_BY_ID widgets (req_name req) = Some w \<and>
           model_validate (int_validator env) (arguments_of req) = Inr payload \<and>
           query payload = q \<and> limit payload = l"
proof (cases "WIDGETS_BY_ID widgets (req_name req)")
  case None
  then show ?thesis using assms by (simp add: call_unknown)
next
  case (Some w)
  show ?thesis
  proof (cases "model_validate (int_validator env) (arguments_of req)")
    case (Inl errs)
    then show ?thesis using assms Some by (simp add: call_invalid)
  next
    case valid: (Inr payload)
    show ?thesis
    proof (cases "fetch_from_api env (query payload) (limit payload)")
      case (Inl exc)
      then show ?thesis
        using assms Some valid
        by (cases "is_exception exc") (simp_all add: call_raise call_propagate)
    next
      case (Inr items)
      then show ?thesis using assms Some valid by (simp add: call_success)
    qed
  qed
qed

text \<open>
  C2. When the tool name of a request is not the identifier of any registered widget, the
  result is an error result whose text is "Unknown tool: " followed by the name, without
  structured content, and no call to the handler is made.
\<close>

theorem unknown_tool_is_failure:
  assumes "req_name req \<notin> set (map identifier widgets)"
  shows "call_tool_request env widgets req =
           (Inr \<lparr>content = [''Unknown tool: '' @ req_name req], structuredContent = None,
             meta = None, isError = True\<rparr>, [])"
  using assms by (simp add: call_unknown WIDGETS_BY_ID_None)

theorem unknown_tool_is_failure_witness:
  "''no-such-tool'' \<notin> set (map identifier (template_widgets ''<html/>''))
   \<and> call_tool_request (example_environment handler_no_items) (template_widgets ''<html/>'')
         \<lparr>req_name = ''no-such-tool'', req_arguments = None\<rparr> =
       (Inr \<lparr>content = [''Unknown tool: no-such-tool''], structuredContent = None,
         meta = None, isError = True\<rparr>, [])"
proof -
  have h: "req_name \<lparr>req_name = ''no-such-tool'', req_arguments = None\<rparr>
             \<notin> set (map identifier (template_widgets ''<html/>''))"
    by (simp add: template_widgets_def)
  show ?thesis
    using h unknown_tool_is_failure [OF h, of "example_environment handler_no_items"] by simp
qed

lemma example_call_raising:
  "call_tool_request (example_environment (handler_raising m)) (template_widgets h)
     (example_request [(''query'', JStr ''pizza'')]) =
   (Inr \<lparr>content = [''Error: '' @ m], structuredContent = None, meta = None, isError = True\<rparr>,
    [(''pizza'', 10)])"
  by (simp add: call_tool_request_def WIDGETS_BY_ID_def template_widgets_def example_request_def
        arguments_of_def model_validate_def validate_query_def validate_limit_def
        forbid_extra_def MyToolInput_fields_def example_environment_def
        handler_raising_def)

lemma example_call_exiting:
  "call_tool_request (example_environment handler_exiting) (template_widgets h)
     (example_request [(''query'', JStr ''pizza'')]) =
   (Inl (BaseExceptionOnly ''shutdown''), [(''pizza'', 10)])"
  by (simp add: call_tool_request_def WIDGETS_BY_ID_def template_widgets_def example_request_def
        arguments_of_def model_validate_def validate_query_def validate_limit_def
        forbid_extra_def MyToolInput_fields_def example_environment_def
        handler_exiting_def)

text \<open>
  C4 as stated does not hold. The handler below raises \<^verbatim>\<open>SystemExit("shutdown")\<close>,
  which is not an instance of \<^verbatim>\<open>Exception\<close>: neither \<^verbatim>\<open>except\<close> clause matches,
  the call returns no result and the exception leaves \<^verbatim>\<open>_call_tool_request\<close>.
\<close>

theorem exception_propagates_counterexample:
  "fetch_from_api (example_environment handler_exiting) ''pizza'' 10
     = Inl (BaseExceptionOnly ''shutdown'')
   \<and> call_tool_request (example_environment handler_exiting) (template_widgets ''<html/>'')
         (example_request [(''query'', JStr ''pizza'')])
     = (Inl (BaseExceptionOnly ''shutdown''), [(''pizza'', 10)])"
proof -
  have "fetch_from_api (example_environment handler_exiting) ''pizza'' 10
          = Inl (BaseExceptionOnly ''shutdown'')"
    by (simp add: example_environment_def handler_exiting_def)
  then show ?thesis
    by (simp only: example_call_exiting simp_thms)
qed

text \<open>
  C4, amended. Whenever the handler is called and raises an exception that is an instance
  of \<^verbatim>\<open>Exception\<close>, the exception is caught: the call returns an error result without
  structured content whose text is "API error: " (for an HTTP error) or "Error: " (for any
  other such exception) followed by the exception's message. An exception that is not an
  instance of \<^verbatim>\<open>Exception\<close> is not caught: it leaves the tool call handler and no
  result is returned.
\<close>

theorem handler_exception_caught_or_propagated:
  assumes "snd (call_tool_request env widgets req) = [(q, l)]"
    and "fetch_from_api env q l = Inl exc"
  shows "(is_exception exc \<longrightarrow>
            fst (call_tool_request env widgets req) =
              Inr \<lparr>content = [(if is_http_error exc then ''API error: '' else ''Error: '')
                                @ exn_text exc],
                    structuredContent = None, meta = None, isError = True\<rparr>)
       \<and> (\<not> is_exception exc \<longrightarrow> fst (call_tool_request env widgets req) = Inl exc)"
proof -
  obtain w payload where
    "WIDGETS_BY_ID widgets (req_name req) = Some w"
    "model_validate (int_validator env) (arguments_of req) = Inr payload"
    "query payload = q" "limit payload = l"
    using handler_called [OF assms(1)] by blast
  then show ?thesis
    using assms(2) by (simp add: call_raise call_propagate)
qed

theorem handler_exception_caught_or_propagated_witness:
  "snd (call_tool_request (example_environment (handler_raising ''boom'')) (template_widgets ''<html/>'')
          (example_request [(''query'', JStr ''pizza'')])) = [(''pizza'', 10)]
   \<and> fetch_from_api (example_environment (handler_raising ''boom'')) ''pizza'' 10
       = Inl (OtherException ''boom'')
   \<and> is_exception (OtherException ''boom'')
   \<and> fst (call_tool_request (example_environment (handler_raising ''boom'')) (template_widgets ''<html/>'')
          (example_request [(''query'', JStr ''pizza'')])) =
       Inr \<lparr>content = [''Error: boom''], structuredContent = None, meta = None, isError = True\<rparr>
   \<and> snd (call_tool_request (example_environment handler_exiting) (template_widgets ''<html/>'')
          (example_request [(''query'', JStr ''pizza'')])) = [(''pizza'', 10)]
   \<and> fetch_from_api (example_environment handler_exiting) ''pizza'' 10
       = Inl (BaseExceptionOnly ''shutdown'')
   \<and> \<not> is_exception (BaseExceptionOnly ''shutdown'')
   \<and> fst (call_tool_request (example_environment handler_exiting) (template_widgets ''<html/>'')
          (example_request [(''query'', JStr ''pizza'')])) = Inl (BaseExceptionOnly ''shutdown'')"
proof -
  have h1: "snd (call_tool_request (example_environment (handler_raising ''boom''))
                  (template_widgets ''<html/>'') (example_request [(''query'', JStr ''pizza'')]))
            = [(''pizza'', 10)]"
    by (simp add: example_call_raising)
  have h2: "fetch_from_api (example_environment (handler_raising ''boom'')) ''pizza'' 10
            = Inl (OtherException ''boom'')"
    by (simp add: example_environment_def handler_raising_def)
  have k1: "snd (call_tool_request (example_environment handler_exiting)
                  (template_widgets ''<html/>'') (example_request [(''query'', JStr ''pizza'')]))
            = [(''pizza'', 10)]"
    by (simp add: example_call_exiting)
  have k2: "fetch_from_api (example_environment handler_exiting) ''pizza'' 10
            = Inl (BaseExceptionOnly ''shutdown'')"
    by (simp add: example_environment_def handler_exiting_def)
  show ?thesis
    using h1 h2 k1 k2 handler_exception_caught_or_propagated [OF h1 h2]
      handler_exception_caught_or_propagated [OF k1 k2]
    by simp
qed

lemma model_validate_query_error:
  "validate_query data = Inl e \<Longrightarrow>
   model_validate iv data = Inl (e # field_errors (validate_limit iv data) @ forbid_extra data)"
  by (simp add: model_validate_def field_errors_def)

lemma model_validate_extra_error:
  "forbid_extra data \<noteq> [] \<Longrightarrow>
   model_validate iv data =
     Inl (field_errors (validate_query data) @ field_errors (validate_limit iv data) @ forbid_extra data)"
  by (auto simp: model_validate_def split: sum.splits list.splits)

lemma model_validate_missing_query:
  assumes "''query'' \<notin> set (map fst data)"
  shows "\<exists>errs. model_validate iv data = Inl errs \<and>
           \<lparr>etype = ''missing'', loc = ''query'', msg = ''Field required'', input = JObj data\<rparr>
             \<in> set errs"
proof -
  have "map_of data ''query'' = None"
    using assms by (simp add: map_of_eq_None_iff)
  then have q: "validate_query data =
      Inl \<lparr>etype = ''missing'', loc = ''query'', msg = ''Field required'', input = JObj data\<rparr>"
    by (simp add: validate_query_def)
  show ?thesis
    using model_validate_query_error [OF q, of iv] by simp
qed

lemma model_validate_extra:
  assumes "(k, v) \<in> set data" and "k \<notin> set MyToolInput_fields"
  shows "\<exists>errs. model_validate iv data = Inl errs \<and>
           \<lparr>etype = ''extra_forbidden'', loc = k,
             msg = ''Extra inputs are not permitted'', input = v\<rparr> \<in> set errs"
proof -
  have mem: "\<lparr>etype = ''extra_forbidden'', loc = k,
              msg = ''Extra inputs are not permitted'', input = v\<rparr> \<in> set (forbid_extra data)"
    using assms unfolding forbid_extra_def by force
  have ne: "forbid_extra data \<noteq> []"
  proof
    assume "forbid_extra data = []"
    with mem show False by (simp only: list.set empty_iff)
  qed
  show ?thesis
    using mem model_validate_extra_error [OF ne, of iv] by simp
qed

text \<open>
  C1. For a registered tool, a call whose arguments omit a required input field (the shared
  input model has one, \<^verbatim>\<open>query\<close>) gives an error result whose text is
  "Validation error: " followed by the rendering of a list of violations that contains the
  "missing" violation located at that field. A call whose arguments contain a key that is
  not a declared field gives an error result in the same way, with the "extra_forbidden"
  violation located at that key. In both cases no call to the handler is made.
\<close>

theorem invalid_arguments_rejected:
  assumes "req_name req \<in> set (map identifier widgets)"
  shows "(F \<in> set MyToolInput_required \<and> F \<notin> set (map fst (arguments_of req)) \<longrightarrow>
            (\<exists>errs. \<lparr>etype = ''missing'', loc = F, msg = ''Field required'',
                      input = JObj (arguments_of req)\<rparr> \<in> set errs \<and>
                    call_tool_request env widgets req =
                      (Inr \<lparr>content = [''Validation error: '' @ errors_repr env errs],
                        structuredContent = None, meta = None, isError = True\<rparr>, [])))
       \<and> ((k, v) \<in> set (arguments_of req) \<and> k \<notin> set MyToolInput_fields \<longrightarrow>
            (\<exists>errs. \<lparr>etype = ''extra_forbidden'', loc = k,
                      msg = ''Extra inputs are not permitted'', input = v\<rparr> \<in> set errs \<and>
                    call_tool_request env widgets req =
                      (Inr \<lparr>content = [''Validation error: '' @ errors_repr env errs],
                        structuredContent = None, meta = None, isError = True\<rparr>, [])))"
proof -
  obtain w where w: "WIDGETS_BY_ID widgets (req_name req) = Some w"
    using assms WIDGETS_BY_ID_None [of widgets "req_name req"] by (cases "WIDGETS_BY_ID widgets (req_name req)") auto
  have missing: "\<exists>errs. \<lparr>etype = ''missing'', loc = F, msg = ''Field required'',
                      input = JObj (arguments_of req)\<rparr> \<in> set errs \<and>
                    call_tool_request env widgets req =
                      (Inr \<lparr>content = [''Validation error: '' @ errors_repr env errs],
                        structuredContent = None, meta = None, isError = True\<rparr>, [])"
    if req: "F \<in> set MyToolInput_required" and omitted: "F \<notin> set (map fst (arguments_of req))"
  proof -
    have F: "F = ''query''"
      using req by (simp add: MyToolInput_required_def)
    obtain errs where "model_validate (int_validator env) (arguments_of req) = Inl errs"
      and "\<lparr>etype = ''missing'', loc = ''query'', msg = ''Field required'',
            input = JObj (arguments_of req)\<rparr> \<in> set errs"
      using model_validate_missing_query omitted unfolding F by blast
    then show ?thesis
      using call_invalid [OF w] unfolding F by blast
  qed
  have extra: "\<exists>errs. \<lparr>etype = ''extra_forbidden'', loc = k,
                      msg = ''Extra inputs are not permitted'', input = v\<rparr> \<in> set errs \<and>
                    call_tool_request env widgets req =
                      (Inr \<lparr>content = [''Validation error: '' @ errors_repr env errs],
                        structuredContent = None, meta = None, isError = True\<rparr>, [])"
    if present: "(k, v) \<in> set (arguments_of req)" and undeclared: "k \<notin> set MyToolInput_fields"
  proof -
    obtain errs where "model_validate (int_validator env) (arguments_of req) = Inl errs"
      and "\<lparr>etype = ''extra_forbidden'', loc = k,
            msg = ''Extra inputs are not permitted'', input = v\<rparr> \<in> set errs"
      using model_validate_extra [OF present undeclared] by blast
    then show ?thesis
      using call_invalid [OF w] by blast
  qed
  show ?thesis
    using missing extra by blast
qed

lemmas example_defs =
  call_tool_request_def WIDGETS_BY_ID_def template_widgets_def example_request_def
  arguments_of_def model_validate_def validate_query_def validate_limit_def
  forbid_extra_def field_errors_def MyToolInput_fields_def MyToolInput_required_def
  example_environment_def example_int_validator_def example_errors_repr_def
  tool_invocation_meta_def

theorem invalid_arguments_rejected_witness:
  "req_name (example_request [(''limit'', JNum 3), (''page'', JNum 2)])
     \<in> set (map identifier (template_widgets ''<html/>''))
   \<and> ''query'' \<in> set MyToolInput_required
   \<and> ''query'' \<notin> set (map fst (arguments_of (example_request [(''limit'', JNum 3), (''page'', JNum 2)])))
   \<and> (''page'', JNum 2) \<in> set (arguments_of (example_request [(''limit'', JNum 3), (''page'', JNum 2)]))
   \<and> ''page'' \<notin> set MyToolInput_fields
   \<and> (\<exists>errs. \<lparr>etype = ''missing'', loc = ''query'', msg = ''Field required'',
                 input = JObj [(''limit'', JNum 3), (''page'', JNum 2)]\<rparr> \<in> set errs \<and>
               call_tool_request (example_environment handler_no_items) (template_widgets ''<html/>'')
                   (example_request [(''limit'', JNum 3), (''page'', JNum 2)]) =
                 (Inr \<lparr>content = [''Validation error: '' @ example_errors_repr errs],
                   structuredContent = None, meta = None, isError = True\<rparr>, []))
   \<and> (\<exists>errs. \<lparr>etype = ''extra_forbidden'', loc = ''page'',
                 msg = ''Extra inputs are not permitted'', input = JNum 2\<rparr> \<in> set errs \<and>
               call_tool_request (example_environment handler_no_items) (template_widgets ''<html/>'')
                   (example_request [(''limit'', JNum 3), (''page'', JNum 2)]) =
                 (Inr \<lparr>content = [''Validation error: '' @ example_errors_repr errs],
                   structuredContent = None, meta = None, isError = True\<rparr>, []))"
proof -
  let ?req = "example_request [(''limit'', JNum 3), (''page'', JNum 2)]"
  have reg: "req_name ?req \<in> set (map identifier (template_widgets ''<html/>''))"
    by (simp add: example_request_def template_widgets_def)
  have args: "arguments_of ?req = [(''limit'', JNum 3), (''page'', JNum 2)]"
    by (simp add: example_request_def arguments_of_def)
  have req: "''query'' \<in> set MyToolInput_required"
    and undeclared: "''page'' \<notin> set MyToolInput_fields"
    by (simp_all add: MyToolInput_required_def MyToolInput_fields_def)
  have env: "errors_repr (example_environment handler_no_items) = example_errors_repr"
    by (simp add: example_environment_def)
  show ?thesis
    using reg req undeclared args
      invalid_arguments_rejected [OF reg, of "''query''" "example_environment handler_no_items"
        "''page''" "JNum 2"]
    by (simp add: env)
qed

lemma example_call_partial_item:
  "call_tool_request (example_environment handler_partial_item) (template_widgets ''<html/>'')
     (example_request [(''query'', JStr ''pizza'')]) =
   (Inr \<lparr>content = [''Found 1 items for '' @ [CHR 0x27] @ ''pizza'' @ [CHR 0x27]],
     structuredContent = Some (JObj
       [(''items'', JList [JObj [(''id'', JStr ''item-0''), (''name'', JStr ''Item 0: pizza'')]]),
        (''total_count'', JNum 1),
        (''metadata'', JObj [(''query'', JStr ''pizza''),
                             (''timestamp'', JStr ''2025-01-01T12:00:00'')])]),
     meta = Some [(''openai/toolInvocation/invoking'', JStr ''Loading...''),
                  (''openai/toolInvocation/invoked'', JStr ''Loaded successfully'')],
     isError = False\<rparr>,
    [(''pizza'', 10)])"
  by (simp add: example_defs handler_partial_item_def str_nat.simps)

text \<open>
  C3 as stated does not hold. The handler below succeeds with an item that lacks the declared
  fields \<^verbatim>\<open>description\<close>, \<^verbatim>\<open>image_url\<close> and \<^verbatim>\<open>rating\<close>; the call is answered
  with a success result whose structured content holds that very item.
\<close>

theorem output_schema_counterexample:
  "missing_field ItemData_fields [(''id'', JStr ''item-0''), (''name'', JStr ''Item 0: pizza'')]
   \<and> fetch_from_api (example_environment handler_partial_item) ''pizza'' 10 =
       Inr [[(''id'', JStr ''item-0''), (''name'', JStr ''Item 0: pizza'')]]
   \<and> call_tool_request (example_environment handler_partial_item) (template_widgets ''<html/>'')
         (example_request [(''query'', JStr ''pizza'')]) =
       (Inr \<lparr>content = [''Found 1 items for '' @ [CHR 0x27] @ ''pizza'' @ [CHR 0x27]],
         structuredContent = Some (JObj
           [(''items'', JList [JObj [(''id'', JStr ''item-0''), (''name'', JStr ''Item 0: pizza'')]]),
            (''total_count'', JNum 1),
            (''metadata'', JObj [(''query'', JStr ''pizza''),
                                 (''timestamp'', JStr ''2025-01-01T12:00:00'')])]),
         meta = Some [(''openai/toolInvocation/invoking'', JStr ''Loading...''),
                      (''openai/toolInvocation/invoked'', JStr ''Loaded successfully'')],
         isError = False\<rparr>,
        [(''pizza'', 10)])"
proof -
  have "missing_field ItemData_fields [(''id'', JStr ''item-0''), (''name'', JStr ''Item 0: pizza'')]"
    by (simp add: missing_field_def ItemData_fields_def)
  moreover have "fetch_from_api (example_environment handler_partial_item) ''pizza'' 10 =
       Inr [[(''id'', JStr ''item-0''), (''name'', JStr ''Item 0: pizza'')]]"
    by (simp add: example_environment_def handler_partial_item_def)
  ultimately show ?thesis
    by (simp only: example_call_partial_item simp_thms)
qed

text \<open>
  C3, amended. The tool call handler does not validate what the handler returns against the
  output model: whenever the handler is called and succeeds, whatever items it returned,
  complete or not, are the \<^verbatim>\<open>items\<close> of the structured content of a result that is
  not an error, with \<^verbatim>\<open>total_count\<close> their number and \<^verbatim>\<open>metadata\<close> the query
  and the time stamp.
\<close>

theorem handler_output_passed_through:
  assumes "snd (call_tool_request env widgets req) = [(q, l)]"
    and "fetch_from_api env q l = Inr items"
  shows "\<exists>r. fst (call_tool_request env widgets req) = Inr r
           \<and> isError r = False
           \<and> structuredContent r =
               Some (JObj [(''items'', JList (map JObj items)),
                           (''total_count'', JNum (int (length items))),
                           (''metadata'', JObj [(''query'', JStr q),
                                                (''timestamp'', JStr (now_isoformat env))])])"
proof -
  obtain w payload where
    "WIDGETS_BY_ID widgets (req_name req) = Some w"
    "model_validate (int_validator env) (arguments_of req) = Inr payload"
    "query payload = q" "limit payload = l"
    using handler_called [OF assms(1)] by blast
  then show ?thesis
    using assms(2) by (simp add: call_success)
qed

theorem handler_output_passed_through_witness:
  "snd (call_tool_request (example_environment handler_partial_item) (template_widgets ''<html/>'')
          (example_request [(''query'', JStr ''pizza'')])) = [(''pizza'', 10)]
   \<and> fetch_from_api (example_environment handler_partial_item) ''pizza'' 10 =
       Inr [[(''id'', JStr ''item-0''), (''name'', JStr ''Item 0: pizza'')]]
   \<and> (\<exists>r. fst (call_tool_request (example_environment handler_partial_item)
              (template_widgets ''<html/>'') (example_request [(''query'', JStr ''pizza'')])) = Inr r
         \<and> isError r = False
         \<and> structuredContent r =
             Some (JObj
               [(''items'', JList [JObj [(''id'', JStr ''item-0''), (''name'', JStr ''Item 0: pizza'')]]),
                (''total_count'', JNum 1),
                (''metadata'', JObj [(''query'', JStr ''pizza''),
                                     (''timestamp'', JStr ''2025-01-01T12:00:00'')])]))"
proof -
  have h1: "snd (call_tool_request (example_environment handler_partial_item)
                  (template_widgets ''<html/>'') (example_request [(''query'', JStr ''pizza'')]))
            = [(''pizza'', 10)]"
    by (simp add: example_call_partial_item)
  have h2: "fetch_from_api (example_environment handler_partial_item) ''pizza'' 10 =
            Inr [[(''id'', JStr ''item-0''), (''name'', JStr ''Item 0: pizza'')]]"
    by (simp add: example_environment_def handler_partial_item_def)
  have now: "now_isoformat (example_environment handler_partial_item) = ''2025-01-01T12:00:00''"
    by (simp add: example_environment_def)
  show ?thesis
    using h1 h2 handler_output_passed_through [OF h1 h2] by (simp add: now)
qed

lemma example_call_no_items:
  "call_tool_request (example_environment handler_no_items) (template_widgets ''<html/>'')
     (example_request [(''query'', JStr ''pizza'')]) =
   (Inr \<lparr>content = [''Found 0 items for '' @ [CHR 0x27] @ ''pizza'' @ [CHR 0x27]],
     structuredContent = Some (JObj
       [(''items'', JList []),
        (''total_count'', JNum 0),
        (''metadata'', JObj [(''query'', JStr ''pizza''),
                             (''timestamp'', JStr ''2025-01-01T12:00:00'')])]),
     meta = Some [(''openai/toolInvocation/invoking'', JStr ''Loading...''),
                  (''openai/toolInvocation/invoked'', JStr ''Loaded successfully'')],
     isError = False\<rparr>,
    [(''pizza'', 10)])"
  by (simp add: example_defs handler_no_items_def str_nat.simps)

text \<open>
  C5 as stated does not hold. The call below succeeds; the metadata of its result has the
  two status strings and nothing else: there is no entry for the widget's template URI
  \<^verbatim>\<open>ui://widget/<widget-name>.html\<close>, the resource that renders the output.
\<close>

theorem success_metadata_counterexample:
  "map template_uri (template_widgets ''<html/>'') = [''ui://widget/<widget-name>.html'']
   \<and> call_tool_request (example_environment handler_no_items) (template_widgets ''<html/>'')
         (example_request [(''query'', JStr ''pizza'')]) =
       (Inr \<lparr>content = [''Found 0 items for '' @ [CHR 0x27] @ ''pizza'' @ [CHR 0x27]],
         structuredContent = Some (JObj
           [(''items'', JList []),
            (''total_count'', JNum 0),
            (''metadata'', JObj [(''query'', JStr ''pizza''),
                                 (''timestamp'', JStr ''2025-01-01T12:00:00'')])]),
         meta = Some [(''openai/toolInvocation/invoking'', JStr ''Loading...''),
                      (''openai/toolInvocation/invoked'', JStr ''Loaded successfully'')],
         isError = False\<rparr>,
        [(''pizza'', 10)])
   \<and> map_of [(''openai/toolInvocation/invoking'', JStr ''Loading...''),
               (''openai/toolInvocation/invoked'', JStr ''Loaded successfully'')]
         ''openai/outputTemplate'' = None
   \<and> JStr ''ui://widget/<widget-name>.html''
         \<notin> set (map snd [(''openai/toolInvocation/invoking'', JStr ''Loading...''),
                              (''openai/toolInvocation/invoked'', JStr ''Loaded successfully'')])"
proof -
  have "map template_uri (template_widgets ''<html/>'') = [''ui://widget/<widget-name>.html'']"
    by (simp add: template_widgets_def)
  then show ?thesis
    by (simp add: example_call_no_items)
qed

text \<open>
  C5, amended. Whenever the handler is called and succeeds, the result is not an error and
  carries the structured content, the text "Found n items for 'query'" and a metadata map
  that consists of exactly the two status strings of the widget registered under the tool
  name, unmodified. The template URI of the widget is not in the metadata of the result; it
  is in the metadata of the tool listing (\<^verbatim>\<open>_tool_meta\<close>), again unmodified.
\<close>

theorem success_result_contents:
  assumes "snd (call_tool_request env widgets req) = [(q, l)]"
    and "fetch_from_api env q l = Inr items"
  shows "\<exists>w. WIDGETS_BY_ID widgets (req_name req) = Some w
           \<and> w \<in> set widgets \<and> identifier w = req_name req
           \<and> fst (call_tool_request env widgets req) =
               Inr \<lparr>content = [''Found '' @ str_nat (length items) @ '' items for ''
                             @ [CHR 0x27] @ q @ [CHR 0x27]],
                 structuredContent = Some (JObj
                   [(''items'', JList (map JObj items)),
                    (''total_count'', JNum (int (length items))),
                    (''metadata'', JObj [(''query'', JStr q),
                                         (''timestamp'', JStr (now_isoformat env))])]),
                 meta = Some [(''openai/toolInvocation/invoking'', JStr (invoking w)),
                              (''openai/toolInvocation/invoked'', JStr (invoked w))],
                 isError = False\<rparr>
           \<and> map_of (tool_meta w) ''openai/outputTemplate'' = Some (JStr (template_uri w))
           \<and> map_of (tool_meta w) ''openai/toolInvocation/invoking'' = Some (JStr (invoking w))
           \<and> map_of (tool_meta w) ''openai/toolInvocation/invoked'' = Some (JStr (invoked w))"
proof -
  obtain w payload where w: "WIDGETS_BY_ID widgets (req_name req) = Some w"
    and p: "model_validate (int_validator env) (arguments_of req) = Inr payload"
    and ql: "query payload = q" "limit payload = l"
    using handler_called [OF assms(1)] by blast
  have "fst (call_tool_request env widgets req) =
               Inr \<lparr>content = [''Found '' @ str_nat (length items) @ '' items for ''
                             @ [CHR 0x27] @ q @ [CHR 0x27]],
                 structuredContent = Some (JObj
                   [(''items'', JList (map JObj items)),
                    (''total_count'', JNum (int (length items))),
                    (''metadata'', JObj [(''query'', JStr q),
                                         (''timestamp'', JStr (now_isoformat env))])]),
                 meta = Some [(''openai/toolInvocation/invoking'', JStr (invoking w)),
                              (''openai/toolInvocation/invoked'', JStr (invoked w))],
                 isError = False\<rparr>"
    using call_success [OF w p] assms(2) ql by (simp add: tool_invocation_meta_def)
  moreover have "map_of (tool_meta w) ''openai/outputTemplate'' = Some (JStr (template_uri w))"
    "map_of (tool_meta w) ''openai/toolInvocation/invoking'' = Some (JStr (invoking w))"
    "map_of (tool_meta w) ''openai/toolInvocation/invoked'' = Some (JStr (invoked w))"
    by (simp_all add: tool_meta_def)
  ultimately show ?thesis
    using w WIDGETS_BY_ID_Some [OF w] by blast
qed

theorem success_result_contents_witness:
  "snd (call_tool_request (example_environment handler_no_items) (template_widgets ''<html/>'')
          (example_request [(''query'', JStr ''pizza'')])) = [(''pizza'', 10)]
   \<and> fetch_from_api (example_environment handler_no_items) ''pizza'' 10 = Inr []
   \<and> (\<exists>w. WIDGETS_BY_ID (template_widgets ''<html/>'')
                (req_name (example_request [(''query'', JStr ''pizza'')])) = Some w
           \<and> (\<exists>r. fst (call_tool_request (example_environment handler_no_items)
                  (template_widgets ''<html/>'') (example_request [(''query'', JStr ''pizza'')])) = Inr r
                 \<and> meta r = Some [(''openai/toolInvocation/invoking'', JStr (invoking w)),
                                  (''openai/toolInvocation/invoked'', JStr (invoked w))])
           \<and> map_of (tool_meta w) ''openai/outputTemplate'' = Some (JStr (template_uri w)))"
proof -
  have h1: "snd (call_tool_request (example_environment handler_no_items)
                  (template_widgets ''<html/>'') (example_request [(''query'', JStr ''pizza'')]))
            = [(''pizza'', 10)]"
    by (simp add: example_call_no_items)
  have h2: "fetch_from_api (example_environment handler_no_items) ''pizza'' 10 = Inr []"
    by (simp add: example_environment_def handler_no_items_def)
  obtain w where "WIDGETS_BY_ID (template_widgets ''<html/>'')
                    (req_name (example_request [(''query'', JStr ''pizza'')])) = Some w"
    and "fst (call_tool_request (example_environment handler_no_items)
                  (template_widgets ''<html/>'') (example_request [(''query'', JStr ''pizza'')])) =
         Inr \<lparr>content = [''Found '' @ str_nat (length ([] :: item list)) @ '' items for ''
                             @ [CHR 0x27] @ ''pizza'' @ [CHR 0x27]],
           structuredContent = Some (JObj
                   [(''items'', JList (map JObj [])),
                    (''total_count'', JNum (int (length ([] :: item list)))),
                    (''metadata'', JObj [(''query'', JStr ''pizza''),
                       (''timestamp'', JStr (now_isoformat (example_environment handler_no_items)))])]),
           meta = Some [(''openai/toolInvocation/invoking'', JStr (invoking w)),
                        (''openai/toolInvocation/invoked'', JStr (invoked w))],
           isError = False\<rparr>"
    and "map_of (tool_meta w) ''openai/outputTemplate'' = Some (JStr (template_uri w))"
    using success_result_contents [OF h1 h2] by blast
  then show ?thesis
    using h1 h2 by auto
qed

text \<open>
  C9 as stated does not hold. Two runs that differ only in the text of the exception the
  handler raises give two different texts to the caller, each ending with the text of the
  exception.
\<close>

theorem exception_text_counterexample:
  "fst (call_tool_request (example_environment (handler_raising ''password=hunter2''))
       (template_widgets ''<html/>'') (example_request [(''query'', JStr ''pizza'')]))
     = Inr \<lparr>content = [''Error: password=hunter2''], structuredContent = None,
             meta = None, isError = True\<rparr>
   \<and> fst (call_tool_request (example_environment (handler_raising ''disk full''))
       (template_widgets ''<html/>'') (example_request [(''query'', JStr ''pizza'')]))
     = Inr \<lparr>content = [''Error: disk full''], structuredContent = None,
             meta = None, isError = True\<rparr>
   \<and> [''Error: password=hunter2''] \<noteq> [''Error: disk full'']"
  by (simp add: example_call_raising)

text \<open>
  C9, amended. Whenever the handler is called and raises and the call returns a result,
  the text given to the caller is a fixed prefix, "API error: " for an HTTP error and
  "Error: " for any other exception, followed by the text of the exception verbatim; there
  is no correlation id. Hence two such runs whose handlers raise exceptions of the same
  kind give the same text exactly when the exceptions have the same text.
\<close>

theorem handler_exception_text_exposed:
  assumes "snd (call_tool_request env widgets req) = [(q, l)]"
    and "fetch_from_api env q l = Inl exc"
    and "fst (call_tool_request env widgets req) = Inr r"
    and "snd (call_tool_request env' widgets' req') = [(q', l')]"
    and "fetch_from_api env' q' l' = Inl exc'"
    and "fst (call_tool_request env' widgets' req') = Inr r'"
  shows "content r = [(if is_http_error exc then ''API error: '' else ''Error: '') @ exn_text exc]
       \<and> (\<exists>pre \<in> {''API error: '', ''Error: ''}. content r = [pre @ exn_text exc])
       \<and> suffix (exn_text exc) (concat (content r))
       \<and> (is_http_error exc = is_http_error exc' \<longrightarrow>
            (content r = content r' \<longleftrightarrow> exn_text exc = exn_text exc'))"
proof -
  have run: "content res = [(if is_http_error x then ''API error: '' else ''Error: '') @ exn_text x]"
    if called: "snd (call_tool_request e ws rq) = [(a, b)]"
      and raised: "fetch_from_api e a b = Inl x"
      and returned: "fst (call_tool_request e ws rq) = Inr res"
    for e ws rq a b x res
  proof -
    obtain w payload where w: "WIDGETS_BY_ID ws (req_name rq) = Some w"
      and p: "model_validate (int_validator e) (arguments_of rq) = Inr payload"
      and ql: "query payload = a" "limit payload = b"
      using handler_called [OF called] by blast
    have raised': "fetch_from_api e (query payload) (limit payload) = Inl x"
      using raised ql by simp
    show ?thesis
    proof (cases "is_exception x")
      case True
      then have "res = \<lparr>content = [(if is_http_error x then ''API error: '' else ''Error: '')
                                       @ exn_text x],
                          structuredContent = None, meta = None, isError = True\<rparr>"
        using call_raise [OF w p raised'] returned by simp
      then show ?thesis
        by auto
    next
      case False
      then show ?thesis
        using call_propagate [OF w p raised'] returned by simp
    qed
  qed
  have c: "content r = [(if is_http_error exc then ''API error: '' else ''Error: '') @ exn_text exc]"
    using run [OF assms(1,2,3)] .
  have c': "content r' = [(if is_http_error exc' then ''API error: '' else ''Error: '') @ exn_text exc']"
    using run [OF assms(4,5,6)] .
  have "\<exists>pre \<in> {''API error: '', ''Error: ''}. content r = [pre @ exn_text exc]"
    unfolding c by simp
  moreover have "suffix (exn_text exc) (concat (content r))"
    unfolding c by (simp add: suffix_def)
  moreover have "is_http_error exc = is_http_error exc' \<longrightarrow>
            (content r = content r' \<longleftrightarrow> exn_text exc = exn_text exc')"
    unfolding c c' by simp
  ultimately show ?thesis
    using c by blast
qed

theorem handler_exception_text_exposed_witness:
  "snd (call_tool_request (example_environment (handler_raising ''password=hunter2''))
         (template_widgets ''<html/>'') (example_request [(''query'', JStr ''pizza'')]))
     = [(''pizza'', 10)]
   \<and> fetch_from_api (example_environment (handler_raising ''password=hunter2'')) ''pizza'' 10
       = Inl (OtherException ''password=hunter2'')
   \<and> fst (call_tool_request (example_environment (handler_raising ''password=hunter2''))
         (template_widgets ''<html/>'') (example_request [(''query'', JStr ''pizza'')]))
       = Inr \<lparr>content = [''Error: password=hunter2''], structuredContent = None,
               meta = None, isError = True\<rparr>
   \<and> snd (call_tool_request (example_environment (handler_raising ''disk full''))
         (template_widgets ''<html/>'') (example_request [(''query'', JStr ''pizza'')]))
     = [(''pizza'', 10)]
   \<and> fetch_from_api (example_environment (handler_raising ''disk full'')) ''pizza'' 10
       = Inl (OtherException ''disk full'')
   \<and> fst (call_tool_request (example_environment (handler_raising ''disk full''))
         (template_widgets ''<html/>'') (example_request [(''query'', JStr ''pizza'')]))
       = Inr \<lparr>content = [''Error: disk full''], structuredContent = None,
               meta = None, isError = True\<rparr>
   \<and> is_http_error (OtherException ''password=hunter2'') = is_http_error (OtherException ''disk full'')
   \<and> suffix ''password=hunter2''
         (concat (content \<lparr>content = [''Error: password=hunter2''], structuredContent = None,
                            meta = None, isError = True\<rparr>))
   \<and> content \<lparr>content = [''Error: password=hunter2''], structuredContent = None,
                 meta = None, isError = True\<rparr>
     \<noteq> content \<lparr>content = [''Error: disk full''], structuredContent = None,
                   meta = None, isError = True\<rparr>"
proof -
  let ?ws = "template_widgets ''<html/>''" and ?req = "example_request [(''query'', JStr ''pizza'')]"
  have a1: "snd (call_tool_request (example_environment (handler_raising ''password=hunter2'')) ?ws ?req)
            = [(''pizza'', 10)]"
    and b1: "snd (call_tool_request (example_environment (handler_raising ''disk full'')) ?ws ?req)
            = [(''pizza'', 10)]"
    by (simp_all add: example_call_raising)
  have a2: "fetch_from_api (example_environment (handler_raising ''password=hunter2'')) ''pizza'' 10
            = Inl (OtherException ''password=hunter2'')"
    and b2: "fetch_from_api (example_environment (handler_raising ''disk full'')) ''pizza'' 10
            = Inl (OtherException ''disk full'')"
    by (simp_all add: example_environment_def handler_raising_def)
  have a3: "fst (call_tool_request (example_environment (handler_raising ''password=hunter2'')) ?ws ?req)
            = Inr \<lparr>content = [''Error: password=hunter2''], structuredContent = None,
                    meta = None, isError = True\<rparr>"
    and b3: "fst (call_tool_request (example_environment (handler_raising ''disk full'')) ?ws ?req)
            = Inr \<lparr>content = [''Error: disk full''], structuredContent = None,
                    meta = None, isError = True\<rparr>"
    by (simp_all add: example_call_raising)
  show ?thesis
    using a1 a2 a3 b1 b2 b3 handler_exception_text_exposed [OF a1 a2 a3 b1 b2 b3]
    by (simp only: simp_thms) simp
qed

section \<open>Properties of loading and caching\<close>

lemma sorted_le_last: "sorted xs \<Longrightarrow> x \<in> set xs \<Longrightarrow> x \<le> last xs"
  by (induction xs) (auto)

lemma last_sort_greatest:
  assumes "xs \<noteq> []"
  shows "last (sort xs) \<in> set xs \<and> (\<forall>g\<in>set xs. g \<le> last (sort xs))"
proof -
  have ne: "sort xs \<noteq> []"
    using assms by (metis length_sort length_0_conv)
  have "last (sort xs) \<in> set (sort xs)"
    using ne by (rule last_in_set)
  moreover have "\<forall>g\<in>set (sort xs). g \<le> last (sort xs)"
    using sorted_le_last [of "sort xs"] by simp
  ultimately show ?thesis
    by simp
qed

lemma glob_fallback_iff:
  "f \<in> set (glob_fallback assets nm) \<longleftrightarrow> f \<in> fst ` set assets \<and> (\<exists>v. f = nm @ ''-'' @ v @ ''.html'')"
  by (auto simp: glob_fallback_def prefix_def suffix_def)

lemma read_text_present:
  "f \<in> set (map fst assets) \<Longrightarrow> \<exists>text. map_of assets f = Some text \<and> read_text assets f = Inr text"
  by (cases "map_of assets f") (auto simp: read_text_def map_of_eq_None_iff)

lemma load_exact:
  "map_of assets (nm @ ''.html'') = Some text \<Longrightarrow> load_widget_html D assets nm = Inr text"
  using map_of_eq_None_iff [of assets "nm @ ''.html''"]
  by (auto simp: load_widget_html_def read_text_def)

lemma load_fallback:
  assumes "map_of assets (nm @ ''.html'') = None" and "glob_fallback assets nm \<noteq> []"
  shows "\<exists>f\<in>set (glob_fallback assets nm).
           (\<forall>g\<in>set (glob_fallback assets nm). g \<le> f) \<and>
           (\<exists>text. map_of assets f = Some text \<and> load_widget_html D assets nm = Inr text)"
proof -
  let ?f = "last (sort (glob_fallback assets nm))"
  have miss: "nm @ ''.html'' \<notin> set (map fst assets)"
    using assms(1) by (simp add: map_of_eq_None_iff)
  have ne: "sort (glob_fallback assets nm) \<noteq> []"
    using assms(2) by (metis length_sort length_0_conv)
  have g: "?f \<in> set (glob_fallback assets nm)" "\<forall>g\<in>set (glob_fallback assets nm). g \<le> ?f"
    using last_sort_greatest [OF assms(2)] by simp_all
  then have "?f \<in> set (map fst assets)"
    by (simp add: glob_fallback_def)
  then obtain t where "map_of assets ?f = Some t" "read_text assets ?f = Inr t"
    using read_text_present by blast
  moreover have "load_widget_html D assets nm = read_text assets ?f"
    using miss ne by (simp add: load_widget_html_def Let_def)
  ultimately show ?thesis
    using g by auto
qed

lemma load_not_found:
  assumes "map_of assets (nm @ ''.html'') = None" and "glob_fallback assets nm = []"
  shows "load_widget_html D assets nm = Inl (FileNotFoundError (not_found_message D nm))"
  using assms by (simp add: load_widget_html_def map_of_eq_None_iff)

lemma cached_hit:
  "cache st nm = Some c \<Longrightarrow> cached_load_widget_html D a nm st = (Inr c, st\<lparr>hits := hits st + 1\<rparr>)"
  by (simp add: cached_load_widget_html_def)

lemma resolve_all_hits:
  "cache st nm = Some c \<Longrightarrow>
   resolve_all D later nm st = (replicate (length later) (Inr c), st\<lparr>hits := hits st + length later\<rparr>)"
proof (induction later arbitrary: st)
  case Nil
  then show ?case by simp
next
  case (Cons a later)
  have "cache (st\<lparr>hits := hits st + 1\<rparr>) nm = Some c"
    using Cons.prems by simp
  from Cons.IH [OF this] show ?case
    using Cons.prems by (simp add: cached_hit)
qed

lemma cached_success_stored:
  "cached_load_widget_html D a nm st = (Inr c, st1) \<Longrightarrow> cache st1 nm = Some c"
  by (auto simp: cached_load_widget_html_def Let_def split: option.splits sum.splits)

lemma cached_failure:
  "cached_load_widget_html D a nm st = (Inl e, st1) \<Longrightarrow>
   cache st nm = None \<and> load_widget_html D a nm = Inl e \<and> st1 = st\<lparr>misses := misses st + 1\<rparr>"
  by (auto simp: cached_load_widget_html_def Let_def split: option.splits sum.splits)

lemma resolve_all_failures:
  "cache st nm = None \<Longrightarrow> load_widget_html D a nm = Inl e \<Longrightarrow>
   resolve_all D (replicate k a) nm st = (replicate k (Inl e), st\<lparr>misses := misses st + k\<rparr>)"
proof (induction k arbitrary: st)
  case 0
  then show ?case by simp
next
  case (Suc k)
  have step: "cached_load_widget_html D a nm st = (Inl e, st\<lparr>misses := misses st + 1\<rparr>)"
    using Suc.prems by (simp add: cached_load_widget_html_def)
  have "cache (st\<lparr>misses := misses st + 1\<rparr>) nm = None"
    using Suc.prems by simp
  from Suc.IH [OF this Suc.prems(2)] show ?case
    using step by simp
qed

text \<open>
  C6 as stated does not hold. With the files \<^verbatim>\<open>widget.html\<close>, \<^verbatim>\<open>widget-aaa.html\<close>
  and \<^verbatim>\<open>widget-bbb.html\<close>, loading \<^verbatim>\<open>widget\<close> finds \<^verbatim>\<open>widget.html\<close>: the
  exact path is the name with \<^verbatim>\<open>.html\<close> appended, so this is a hit, and the text of
  \<^verbatim>\<open>widget.html\<close> is returned, not that of \<^verbatim>\<open>widget-bbb.html\<close>.
\<close>

theorem fallback_scenario_counterexample:
  "load_widget_html ''/srv/mcp/assets''
     [(''widget.html'', ''<exact/>''), (''widget-aaa.html'', ''<aaa/>''),
      (''widget-bbb.html'', ''<bbb/>'')] ''widget'' = Inr ''<exact/>''
   \<and> map_of [(''widget.html'', ''<exact/>''), (''widget-aaa.html'', ''<aaa/>''),
               (''widget-bbb.html'', ''<bbb/>'')] ''widget-bbb.html'' = Some ''<bbb/>''
   \<and> load_widget_html ''/srv/mcp/assets''
     [(''widget.html'', ''<exact/>''), (''widget-aaa.html'', ''<aaa/>''),
      (''widget-bbb.html'', ''<bbb/>'')] ''widget'' \<noteq> Inr ''<bbb/>''"
  by (simp add: load_widget_html_def read_text_def)

text \<open>
  C6, amended. For a plain component name, loading first looks for the file named by the
  name followed by \<^verbatim>\<open>.html\<close> and returns its text when it exists, whatever other
  files there are. When it does not exist, the candidates are the files whose name is the
  component name, a hyphen, any suffix and \<^verbatim>\<open>.html\<close>; if there are any, the text of the
  lexicographically greatest one is returned (so with \<^verbatim>\<open>widget-aaa.html\<close> and
  \<^verbatim>\<open>widget-bbb.html\<close> and no \<^verbatim>\<open>widget.html\<close>, loading \<^verbatim>\<open>widget\<close> returns the
  text of \<^verbatim>\<open>widget-bbb.html\<close>). When there is none, loading fails with an error whose
  message carries the component name and the directory searched.
\<close>

theorem load_widget_html_policy:
  assumes "plain_name nm"
  shows "(\<forall>t. map_of assets (nm @ ''.html'') = Some t \<longrightarrow> load_widget_html D assets nm = Inr t)
       \<and> (map_of assets (nm @ ''.html'') = None \<and> glob_fallback assets nm \<noteq> [] \<longrightarrow>
            (\<exists>f\<in>set (glob_fallback assets nm).
               (\<forall>g\<in>set (glob_fallback assets nm). g \<le> f) \<and>
               (\<exists>t. map_of assets f = Some t \<and> load_widget_html D assets nm = Inr t)))
       \<and> (map_of assets (nm @ ''.html'') = None \<and> glob_fallback assets nm = [] \<longrightarrow>
            load_widget_html D assets nm =
              Inl (FileNotFoundError (''Widget HTML for '' @ [CHR 0x22] @ nm @ [CHR 0x22]
                @ '' not found in '' @ D @ ''. Run `pnpm run build` in web/ to generate assets.'')))
       \<and> (\<forall>f. f \<in> set (glob_fallback assets nm) \<longleftrightarrow>
                f \<in> fst ` set assets \<and> (\<exists>v. f = nm @ ''-'' @ v @ ''.html''))"
proof -
  have "not_found_message D nm =
          ''Widget HTML for '' @ [CHR 0x22] @ nm @ [CHR 0x22]
            @ '' not found in '' @ D @ ''. Run `pnpm run build` in web/ to generate assets.''"
    by (simp add: not_found_message_def)
  then show ?thesis
    using load_exact [of assets nm _ D] load_fallback [of assets nm D]
      load_not_found [of assets nm D] glob_fallback_iff [of _ assets nm]
    by (simp only: simp_thms) blast
qed

theorem load_widget_html_policy_witness:
  "plain_name ''widget''
   \<and> map_of [(''widget-aaa.html'', ''<aaa/>''), (''widget-bbb.html'', ''<bbb/>'')] ''widget.html'' = None
   \<and> glob_fallback [(''widget-aaa.html'', ''<aaa/>''), (''widget-bbb.html'', ''<bbb/>'')] ''widget''
       = [''widget-aaa.html'', ''widget-bbb.html'']
   \<and> (\<exists>f\<in>set (glob_fallback [(''widget-aaa.html'', ''<aaa/>''), (''widget-bbb.html'', ''<bbb/>'')] ''widget'').
         (\<forall>g\<in>set (glob_fallback [(''widget-aaa.html'', ''<aaa/>''), (''widget-bbb.html'', ''<bbb/>'')] ''widget''). g \<le> f) \<and>
         (\<exists>t. map_of [(''widget-aaa.html'', ''<aaa/>''), (''widget-bbb.html'', ''<bbb/>'')] f = Some t \<and>
              load_widget_html ''/srv/mcp/assets''
                [(''widget-aaa.html'', ''<aaa/>''), (''widget-bbb.html'', ''<bbb/>'')] ''widget'' = Inr t))
   \<and> load_widget_html ''/srv/mcp/assets''
         [(''widget-aaa.html'', ''<aaa/>''), (''widget-bbb.html'', ''<bbb/>'')] ''widget'' = Inr ''<bbb/>''"
proof -
  let ?assets = "[(''widget-aaa.html'', ''<aaa/>''), (''widget-bbb.html'', ''<bbb/>'')]"
  have plain: "plain_name ''widget''"
    by (simp add: plain_name_def)
  have miss: "map_of ?assets ''widget.html'' = None"
    by simp
  have cands: "glob_fallback ?assets ''widget'' = [''widget-aaa.html'', ''widget-bbb.html'']"
    by code_simp
  then have ne: "glob_fallback ?assets ''widget'' \<noteq> []"
    by simp
  have val: "load_widget_html ''/srv/mcp/assets'' ?assets ''widget'' = Inr ''<bbb/>''"
    by code_simp
  have "\<exists>f\<in>set (glob_fallback ?assets ''widget'').
         (\<forall>g\<in>set (glob_fallback ?assets ''widget''). g \<le> f) \<and>
         (\<exists>t. map_of ?assets f = Some t \<and>
              load_widget_html ''/srv/mcp/assets'' ?assets ''widget'' = Inr t)"
    using load_widget_html_policy [OF plain, of ?assets "''/srv/mcp/assets''"] miss ne
    by (simp only: simp_thms append.simps)
  then show ?thesis
    using plain miss cands val by (simp only: simp_thms)
qed

lemma cached_miss_success:
  "cache st nm = None \<Longrightarrow> load_widget_html D a nm = Inr c \<Longrightarrow>
   cached_load_widget_html D a nm st =
     (Inr c, st\<lparr>misses := misses st + 1, cache := (cache st)(nm \<mapsto> c)\<rparr>)"
  by (simp add: cached_load_widget_html_def)

text \<open>
  C7 as stated does not hold. The first call below fails because the directory is empty;
  by the second call \<^verbatim>\<open>widget.html\<close> has been written, and that call succeeds: a
  failed resolution does not fail again on every later call.
\<close>

theorem failure_not_permanent_counterexample:
  "fst (resolve_all ''/srv/mcp/assets'' [[], [(''widget.html'', ''<new/>'')]] ''widget''
         \<lparr>cache = Map.empty, hits = 0, misses = 0\<rparr>)
     = [Inl (FileNotFoundError (not_found_message ''/srv/mcp/assets'' ''widget'')), Inr ''<new/>'']"
proof -
  have "load_widget_html ''/srv/mcp/assets'' [] ''widget''
          = Inl (FileNotFoundError (not_found_message ''/srv/mcp/assets'' ''widget''))"
    by (simp add: load_widget_html_def glob_fallback_def)
  moreover have "load_widget_html ''/srv/mcp/assets'' [(''widget.html'', ''<new/>'')] ''widget''
          = Inr ''<new/>''"
    by (simp add: load_widget_html_def read_text_def)
  ultimately show ?thesis
    by (simp add: cached_load_widget_html_def)
qed

text \<open>
  C7, amended. After a call that returned a text, every later call for the same name
  returns that same text from the cache, whatever the directory holds by then, and the
  loading body is not run again (the miss counter stays, only the hit counter grows). A
  call that failed stored nothing, so every later call for that name runs the body again:
  as long as the directory is as it was, it fails with the same error, and as soon as the
  directory lets the body succeed, the call returns the text and stores it.
\<close>

theorem resolution_cached_failure_not:
  assumes "cached_load_widget_html D a nm st = (r, st1)"
  shows "(\<forall>c. r = Inr c \<longrightarrow>
            resolve_all D later nm st1 =
              (replicate (length later) (Inr c), st1\<lparr>hits := hits st1 + length later\<rparr>)
            \<and> misses (snd (resolve_all D later nm st1)) = misses st1)
       \<and> (\<forall>e. r = Inl e \<longrightarrow>
            cache st1 = cache st \<and> cache st1 nm = None \<and> misses st1 = misses st + 1
            \<and> resolve_all D (replicate k a) nm st1 =
                (replicate k (Inl e), st1\<lparr>misses := misses st1 + k\<rparr>)
            \<and> (\<forall>a' c. load_widget_html D a' nm = Inr c \<longrightarrow>
                  cached_load_widget_html D a' nm st1 =
                    (Inr c, st1\<lparr>misses := misses st1 + 1, cache := (cache st1)(nm \<mapsto> c)\<rparr>)))"
proof (intro conjI allI impI)
  fix c assume "r = Inr c"
  then have "cache st1 nm = Some c"
    using assms cached_success_stored by blast
  then show "resolve_all D later nm st1 =
               (replicate (length later) (Inr c), st1\<lparr>hits := hits st1 + length later\<rparr>)"
    by (rule resolve_all_hits)
  then show "misses (snd (resolve_all D later nm st1)) = misses st1"
    by simp
next
  fix e assume "r = Inl e"
  then have f: "cache st nm = None" "load_widget_html D a nm = Inl e"
    "st1 = st\<lparr>misses := misses st + 1\<rparr>"
    using assms cached_failure by blast+
  show "cache st1 = cache st" and none: "cache st1 nm = None" and "misses st1 = misses st + 1"
    using f by simp_all
  show "resolve_all D (replicate k a) nm st1 =
          (replicate k (Inl e), st1\<lparr>misses := misses st1 + k\<rparr>)"
    using f resolve_all_failures [of st1 nm D a e k] by simp
  fix a' c assume "load_widget_html D a' nm = Inr c"
  then show "cached_load_widget_html D a' nm st1 =
               (Inr c, st1\<lparr>misses := misses st1 + 1, cache := (cache st1)(nm \<mapsto> c)\<rparr>)"
    using none by (rule cached_miss_success [rotated])
qed

theorem resolution_cached_failure_not_witness:
  "fst (cached_load_widget_html ''/srv/mcp/assets'' [(''widget-bbb.html'', ''<bbb/>'')] ''widget''
         \<lparr>cache = Map.empty, hits = 0, misses = 0\<rparr>) = Inr ''<bbb/>''
   \<and> fst (resolve_all ''/srv/mcp/assets'' [[], [(''widget.html'', ''<new/>'')]] ''widget''
         (snd (cached_load_widget_html ''/srv/mcp/assets'' [(''widget-bbb.html'', ''<bbb/>'')] ''widget''
            \<lparr>cache = Map.empty, hits = 0, misses = 0\<rparr>)))
       = [Inr ''<bbb/>'', Inr ''<bbb/>'']
   \<and> misses (snd (resolve_all ''/srv/mcp/assets'' [[], [(''widget.html'', ''<new/>'')]] ''widget''
         (snd (cached_load_widget_html ''/srv/mcp/assets'' [(''widget-bbb.html'', ''<bbb/>'')] ''widget''
            \<lparr>cache = Map.empty, hits = 0, misses = 0\<rparr>)))) = 1
   \<and> fst (cached_load_widget_html ''/srv/mcp/assets'' [] ''widget''
         \<lparr>cache = Map.empty, hits = 0, misses = 0\<rparr>)
       = Inl (FileNotFoundError (not_found_message ''/srv/mcp/assets'' ''widget''))
   \<and> fst (resolve_all ''/srv/mcp/assets'' (replicate 2 []) ''widget''
         (snd (cached_load_widget_html ''/srv/mcp/assets'' [] ''widget''
            \<lparr>cache = Map.empty, hits = 0, misses = 0\<rparr>)))
       = [Inl (FileNotFoundError (not_found_message ''/srv/mcp/assets'' ''widget'')),
          Inl (FileNotFoundError (not_found_message ''/srv/mcp/assets'' ''widget''))]
   \<and> misses (snd (resolve_all ''/srv/mcp/assets'' (replicate 2 []) ''widget''
         (snd (cached_load_widget_html ''/srv/mcp/assets'' [] ''widget''
            \<lparr>cache = Map.empty, hits = 0, misses = 0\<rparr>)))) = 3
   \<and> fst (cached_load_widget_html ''/srv/mcp/assets'' [(''widget.html'', ''<new/>'')] ''widget''
         (snd (cached_load_widget_html ''/srv/mcp/assets'' [] ''widget''
            \<lparr>cache = Map.empty, hits = 0, misses = 0\<rparr>))) = Inr ''<new/>''"
proof -
  let ?st = "\<lparr>cache = Map.empty, hits = 0, misses = 0\<rparr>"
  let ?ok = "cached_load_widget_html ''/srv/mcp/assets'' [(''widget-bbb.html'', ''<bbb/>'')] ''widget'' ?st"
  let ?ko = "cached_load_widget_html ''/srv/mcp/assets'' [] ''widget'' ?st"
  have load_ok: "load_widget_html ''/srv/mcp/assets'' [(''widget-bbb.html'', ''<bbb/>'')] ''widget''
                 = Inr ''<bbb/>''"
    by code_simp
  have load_ko: "load_widget_html ''/srv/mcp/assets'' [] ''widget''
                 = Inl (FileNotFoundError (not_found_message ''/srv/mcp/assets'' ''widget''))"
    by (simp add: load_widget_html_def glob_fallback_def)
  have load_new: "load_widget_html ''/srv/mcp/assets'' [(''widget.html'', ''<new/>'')] ''widget''
                 = Inr ''<new/>''"
    by (simp add: load_widget_html_def read_text_def)
  have ok: "fst ?ok = Inr ''<bbb/>''" and ok_misses: "misses (snd ?ok) = 1"
    by (simp_all add: cached_load_widget_html_def load_ok)
  have ko: "fst ?ko = Inl (FileNotFoundError (not_found_message ''/srv/mcp/assets'' ''widget''))"
    and ko_misses: "misses (snd ?ko) = 1"
    by (simp_all add: cached_load_widget_html_def load_ko)
  have h_ok: "?ok = (fst ?ok, snd ?ok)" and h_ko: "?ko = (fst ?ko, snd ?ko)"
    by simp_all
  show ?thesis
    using ok ok_misses ko ko_misses load_new
      resolution_cached_failure_not [OF h_ok, of "[[], [(''widget.html'', ''<new/>'')]]" 2]
      resolution_cached_failure_not [OF h_ko, of "[]" 2]
    by (simp add: numeral_2_eq_2)
qed

section \<open>Properties of the widget state store\<close>

text \<open>
  C8. A write with an updater function holds afterwards the function's value at the
  current document, or at the default when the store held nothing, and the next read
  returns it. With current document {a: 1, b: 2} and the updater that spreads the previous
  document and sets b to 3, the next read gives {a: 1, b: 3}. The updaters the widgets pass
  spread the previous document, so the fields they do not mention are kept: the updater of
  \<^verbatim>\<open>handleSaveWidgetState\<close> keeps every key but \<^verbatim>\<open>note\<close>, \<^verbatim>\<open>highlight\<close> and
  \<^verbatim>\<open>savedAt\<close>, and the updater of \<^verbatim>\<open>handleAddToCart\<close> changes the cart only.
\<close>

theorem write_updater_applied:
  "read (write dflt (Updater f) store) =
     Some (f (case store of None \<Rightarrow> dflt | Some current \<Rightarrow> current))
   \<and> read (write dflt (NewDocument doc) store) = Some doc
   \<and> read (write dflt2 (Updater (\<lambda>prev. prev(''b'' \<mapsto> JNum 3)))
                (Some [''a'' \<mapsto> JNum 1, ''b'' \<mapsto> JNum 2]))
       = Some [''a'' \<mapsto> JNum 1, ''b'' \<mapsto> JNum 3]
   \<and> (k \<notin> {''note'', ''highlight'', ''savedAt''} \<longrightarrow>
        (\<exists>d'. read (write dflt3 (Updater (handleSaveWidgetState n h now)) (Some d)) = Some d'
              \<and> d' k = d k
              \<and> d' ''note'' = Some (JStr n) \<and> d' ''highlight'' = Some (JBool h)
              \<and> d' ''savedAt'' = Some (JStr now)))
   \<and> (\<exists>c. handleAddToCart p (Some qd) = Some (qd\<lparr>cart := Some c\<rparr>))"
proof -
  have "\<exists>c. handleAddToCart p (Some qd) = Some (qd\<lparr>cart := Some c\<rparr>)"
    by (cases "find (\<lambda>item. product_id item = p) (currentCart (Some qd))")
       (auto simp: handleAddToCart_def spread_def)
  then show ?thesis
    by (simp add: read_def write_def handleSaveWidgetState_def)
qed

theorem write_updater_applied_witness:
  "''theme'' \<notin> {''note'', ''highlight'', ''savedAt''}
   \<and> (\<exists>d'. read (write Map.empty (Updater (handleSaveWidgetState ''hello'' True ''2025-01-01T12:00:00Z''))
                  (Some [''theme'' \<mapsto> JStr ''dark'', ''note'' \<mapsto> JStr ''old''])) = Some d'
         \<and> d' ''theme'' = Some (JStr ''dark'')
         \<and> d' ''note'' = Some (JStr ''hello''))"
proof -
  have h: "''theme'' \<notin> {''note'', ''highlight'', ''savedAt''}"
    by simp
  show ?thesis
    using h write_updater_applied [of Map.empty id None "Map.empty :: string \<rightharpoonup> json"
        Map.empty "''theme''" Map.empty "''hello''" True "''2025-01-01T12:00:00Z''"
        "[''theme'' \<mapsto> JStr ''dark'', ''note'' \<mapsto> JStr ''old'']" "''p''" empty_document]
    by auto
qed

end
